theory Spec2Isabelle
  imports Main "HOL-Library.Word" "HOL-Library.AList"
begin

section \<open>The weather station service (server.py)\<close>

text \<open>
  The service keeps no state of its own: every method sends statements to a storage
  session and turns the outcome into a reply message. The storage engine is external, so
  the methods are modelled over an arbitrary engine, and a session records, next to the
  engine's state, the statements that were executed on it, in order.
\<close>

subsection \<open>Values of the driver\<close>

text \<open>
  The \<^verbatim>\<open>int\<close> columns of the table and the \<^verbatim>\<open>int32\<close> fields of the messages are
  32-bit two's complement integers; \<open>sint\<close> reads them.
\<close>

type_synonym int32 = "32 word"

text \<open>A calendar day, as the request carries it.\<close>

type_synonym date = string

text \<open>
  The members of the driver's \<^verbatim>\<open>ConsistencyLevel\<close> (\<open>CL_ALL\<close> is its \<^verbatim>\<open>ALL\<close>); the service
  uses ONE and THREE.
\<close>

datatype consistency_level =
  ANY | ONE | TWO | THREE | QUORUM | CL_ALL | LOCAL_QUORUM | EACH_QUORUM
  | SERIAL | LOCAL_SERIAL | LOCAL_ONE

text \<open>
  What \<^verbatim>\<open>session.execute\<close> can raise, as far as the handlers of the service tell
  exceptions apart: \<^verbatim>\<open>cassandra.Unavailable\<close>, \<^verbatim>\<open>cassandra.cluster.NoHostAvailable\<close>,
  and every other \<^verbatim>\<open>Exception\<close>. Each carries the text that \<^verbatim>\<open>str(e)\<close> gives.
\<close>

datatype exc = Unavailable string | NoHostAvailable string | OtherException string

fun str :: "exc \<Rightarrow> string" where
  "str (Unavailable m) = m"
| "str (NoHostAvailable m) = m"
| "str (OtherException m) = m"

text \<open>The test of \<^verbatim>\<open>except (cassandra.Unavailable, cassandra.cluster.NoHostAvailable)\<close>.\<close>

fun is_unavailable :: "exc \<Rightarrow> bool" where
  "is_unavailable (Unavailable m) = True"
| "is_unavailable (NoHostAvailable m) = True"
| "is_unavailable (OtherException m) = False"

text \<open>
  A statement is its query text and the consistency level attached to it; \<open>None\<close> is a
  statement that leaves the level to the session's default (a plain query string).
\<close>

record statement =
  query_string :: string
  consistency_level :: "consistency_level option"

datatype param = PText string | PInt int32

datatype call = Call statement "param list"

text \<open>
  The rows of the two queries of the service. A column can be null: \<^verbatim>\<open>MAX\<close> over no
  value, the static \<^verbatim>\<open>name\<close> of a partition that was never given one.
\<close>

datatype max_row = MaxRow (max_temp: "int32 option")

datatype name_row = NameRow (name: "string option")

text \<open>\<^verbatim>\<open>ResultSet.one()\<close>: the first row, or \<^verbatim>\<open>None\<close> when there is none.\<close>

fun one :: "'a list \<Rightarrow> 'a option" where
  "one [] = None"
| "one (r # rs) = Some r"

subsection \<open>Messages\<close>

datatype StationNameRequest = StationNameRequest (station: string)

datatype RecordTempsRequest =
  RecordTempsRequest (station: string) (date: date) (tmin: int32) (tmax: int32)

datatype StationMaxRequest = StationMaxRequest (station: string)

datatype StationNameReply = StationNameReply (name: string) (error: string)

datatype RecordTempsReply = RecordTempsReply (error: string)

datatype StationMaxReply = StationMaxReply (tmax: int32) (error: string)

text \<open>
  A message constructor takes \<^verbatim>\<open>None\<close> for a field as the field left unset, and an unset
  string field reads as the empty string.
\<close>

fun proto_string :: "string option \<Rightarrow> string" where
  "proto_string None = []"
| "proto_string (Some v) = v"

subsection \<open>Configuration set up by \<^verbatim>\<open>__init__\<close>\<close>

text \<open>The keyspace is created with \<^verbatim>\<open>'replication_factor': 3\<close>.\<close>

definition replication_factor :: nat where
  "replication_factor = 3"

text \<open>The query texts, with the layout of the source's string literals reduced to single spaces.\<close>

definition insert_temp :: statement where
  "insert_temp =
     \<lparr>query_string =
        ''INSERT INTO weather.stations (id, date, record) VALUES (?, ?, {tmin: ?, tmax: ?})'',
      consistency_level = Some ONE\<rparr>"

definition select_max_strong :: statement where
  "select_max_strong =
     \<lparr>query_string = ''SELECT MAX(record.tmax) as max_temp FROM weather.stations WHERE id = ?'',
      consistency_level = Some THREE\<rparr>"

definition select_max_available :: statement where
  "select_max_available =
     \<lparr>query_string = ''SELECT MAX(record.tmax) as max_temp FROM weather.stations WHERE id = ?'',
      consistency_level = Some ONE\<rparr>"

definition select_name :: statement where
  "select_name =
     \<lparr>query_string = ''SELECT name FROM weather.stations WHERE id = %s'',
      consistency_level = None\<rparr>"

subsection \<open>The session\<close>

text \<open>
  An engine answers each kind of statement, given the consistency level of the statement
  and its bound values, from its state \<open>'s\<close>: it raises (\<open>Inl\<close>) or returns rows
  (\<open>Inr\<close>), and gives its next state.
\<close>

record 's engine =
  run_insert ::
    "consistency_level option \<Rightarrow> string \<Rightarrow> date \<Rightarrow> int32 \<Rightarrow> int32 \<Rightarrow> 's \<Rightarrow> (exc + unit) \<times> 's"
  run_select_max ::
    "consistency_level option \<Rightarrow> string \<Rightarrow> 's \<Rightarrow> (exc + max_row list) \<times> 's"
  run_select_name ::
    "consistency_level option \<Rightarrow> string \<Rightarrow> 's \<Rightarrow> (exc + name_row list) \<times> 's"

record 's session =
  db :: 's
  trace :: "call list"

text \<open>
  \<^verbatim>\<open>session.execute(statement, parameters)\<close>, one definition for each shape of result.
  Every execution is appended to the trace, whether it raises or not.
\<close>

definition execute_insert ::
  "'s engine \<Rightarrow> statement \<Rightarrow> string \<times> date \<times> int32 \<times> int32 \<Rightarrow> 's session
     \<Rightarrow> (exc + unit) \<times> 's session" where
  "execute_insert eng stmt ps s =
     (case ps of (st, d, lo, hi) \<Rightarrow>
        (case run_insert eng (consistency_level stmt) st d lo hi (db s) of
           (r, db') \<Rightarrow>
             (r, \<lparr>db = db',
                  trace = trace s @ [Call stmt [PText st, PText d, PInt lo, PInt hi]]\<rparr>)))"

definition execute_select_max ::
  "'s engine \<Rightarrow> statement \<Rightarrow> string \<Rightarrow> 's session \<Rightarrow> (exc + max_row list) \<times> 's session" where
  "execute_select_max eng stmt st s =
     (case run_select_max eng (consistency_level stmt) st (db s) of
        (r, db') \<Rightarrow> (r, \<lparr>db = db', trace = trace s @ [Call stmt [PText st]]\<rparr>))"

definition execute_select_name ::
  "'s engine \<Rightarrow> statement \<Rightarrow> string \<Rightarrow> 's session \<Rightarrow> (exc + name_row list) \<times> 's session" where
  "execute_select_name eng stmt st s =
     (case run_select_name eng (consistency_level stmt) st (db s) of
        (r, db') \<Rightarrow> (r, \<lparr>db = db', trace = trace s @ [Call stmt [PText st]]\<rparr>))"

subsection \<open>The service methods\<close>

text \<open>
  \<^verbatim>\<open>StationName\<close> has no handler: an exception of the session leaves the method (\<open>Inl\<close>).
  A row object is true whatever its column holds, so \<^verbatim>\<open>if row\<close> only asks whether
  there is a row.
\<close>

definition StationName ::
  "'s engine \<Rightarrow> StationNameRequest \<Rightarrow> 's session \<Rightarrow> (exc + StationNameReply) \<times> 's session" where
  "StationName eng request s =
     (case execute_select_name eng select_name (StationNameRequest.station request) s of
        (Inl e, s1) \<Rightarrow> (Inl e, s1)
      | (Inr result, s1) \<Rightarrow>
          (case one result of
             Some row \<Rightarrow> (Inr (StationNameReply (proto_string (name_row.name row)) ''''), s1)
           | None \<Rightarrow> (Inr (StationNameReply '''' ''Station not found''), s1)))"

definition RecordTemps ::
  "'s engine \<Rightarrow> RecordTempsRequest \<Rightarrow> 's session \<Rightarrow> RecordTempsReply \<times> 's session" where
  "RecordTemps eng request s =
     (case execute_insert eng insert_temp
             (RecordTempsRequest.station request, RecordTempsRequest.date request,
              RecordTempsRequest.tmin request, RecordTempsRequest.tmax request) s of
        (Inr u, s1) \<Rightarrow> (RecordTempsReply '''', s1)
      | (Inl e, s1) \<Rightarrow>
          if is_unavailable e then (RecordTempsReply ''unavailable'', s1)
          else (RecordTempsReply (str e), s1))"

text \<open>
  \<^verbatim>\<open>StationMax\<close>: the strong read; on unavailability, and only then, the same read at
  the weak level inside a handler of its own.
\<close>

definition StationMax ::
  "'s engine \<Rightarrow> StationMaxRequest \<Rightarrow> 's session \<Rightarrow> StationMaxReply \<times> 's session" where
  "StationMax eng request s =
     (case execute_select_max eng select_max_strong (StationMaxRequest.station request) s of
        (Inr result, s1) \<Rightarrow>
          (case one result of
             Some row \<Rightarrow>
               (case max_temp row of
                  Some m \<Rightarrow> (StationMaxReply m '''', s1)
                | None \<Rightarrow> (StationMaxReply (- 1) ''No data found'', s1))
           | None \<Rightarrow> (StationMaxReply (- 1) ''No data found'', s1))
      | (Inl e, s1) \<Rightarrow>
          if is_unavailable e then
            (case execute_select_max eng select_max_available
                    (StationMaxRequest.station request) s1 of
               (Inr result, s2) \<Rightarrow>
                 (case one result of
                    Some row \<Rightarrow>
                      (case max_temp row of
                         Some m \<Rightarrow> (StationMaxReply m ''fallback_to_available'', s2)
                       | None \<Rightarrow> (StationMaxReply (- 1) ''No data found'', s2))
                  | None \<Rightarrow> (StationMaxReply (- 1) ''No data found'', s2))
             | (Inl e2, s2) \<Rightarrow>
                 if is_unavailable e2 then (StationMaxReply (- 1) ''unavailable'', s2)
                 else (StationMaxReply (- 1) (str e2), s2))
          else (StationMaxReply (- 1) (str e), s1))"

subsection \<open>A model of the store\<close>

text \<open>
  Modelled from the spec: the storage engine that executes the statements is not part of
  the repository. The model is the single table of the source's schema,
  \<^verbatim>\<open>stations (id, date, name STATIC, record, PRIMARY KEY (id, date))\<close>, held once (the
  copies on the replicas are not told apart), with the number of replicas that can be
  reached. As the spec has it, an execution fails with an unavailability error when fewer
  replicas can be reached than the consistency level asks for, an observation is keyed
  by station and day, and a write to a key that is present overwrites it.
\<close>

datatype station_record = StationRecord (tmin: int32) (tmax: int32)

record cluster =
  alive :: nat
  names :: "(string \<times> string) list"
  observations :: "((string \<times> date) \<times> station_record) list"

text \<open>
  Modelled from the spec: the number of replicas a consistency level waits for, at
  replication factor \<open>rf\<close>. A statement without a level runs at the session's default,
  one replica.
\<close>

fun block_for :: "consistency_level \<Rightarrow> nat \<Rightarrow> nat" where
  "block_for ANY rf = 1"
| "block_for ONE rf = 1"
| "block_for TWO rf = 2"
| "block_for THREE rf = 3"
| "block_for QUORUM rf = rf div 2 + 1"
| "block_for CL_ALL rf = rf"
| "block_for LOCAL_QUORUM rf = rf div 2 + 1"
| "block_for EACH_QUORUM rf = rf div 2 + 1"
| "block_for SERIAL rf = rf div 2 + 1"
| "block_for LOCAL_SERIAL rf = rf div 2 + 1"
| "block_for LOCAL_ONE rf = 1"

text \<open>
  Modelled from the spec: an execution is refused with an unavailability error when fewer
  replicas can be reached than the level of the statement waits for; with no replica
  reachable the driver has no host to send the statement to.
\<close>

fun level_of :: "consistency_level option \<Rightarrow> consistency_level" where
  "level_of None = LOCAL_ONE"
| "level_of (Some l) = l"

definition refusal :: "consistency_level option \<Rightarrow> cluster \<Rightarrow> exc option" where
  "refusal cl c =
     (if alive c = 0 then Some (NoHostAvailable ''Unable to connect to any servers'')
      else if alive c < block_for (level_of cl) replication_factor
        then Some (Unavailable ''Cannot achieve consistency level'')
      else None)"

text \<open>
  Modelled from the spec: the maximum \<open>tmax\<close> across the observations of a station, the
  temperatures compared as signed numbers; null when the station has no observation.
\<close>

definition smax :: "int32 \<Rightarrow> int32 \<Rightarrow> int32" where
  "smax a b = (if sint a < sint b then b else a)"

fun max_tmax :: "station_record list \<Rightarrow> int32 option" where
  "max_tmax [] = None"
| "max_tmax (r # rs) =
     (case max_tmax rs of
        None \<Rightarrow> Some (station_record.tmax r)
      | Some m \<Rightarrow> Some (smax (station_record.tmax r) m))"

definition partition_rows :: "string \<Rightarrow> cluster \<Rightarrow> station_record list" where
  "partition_rows st c = map snd (filter (\<lambda>r. fst (fst r) = st) (observations c))"

text \<open>
  Modelled from the spec: the insert is an upsert, it sets the record of the row with the
  given station and date, and adds the row when the key is new.
\<close>

definition cluster_insert ::
  "consistency_level option \<Rightarrow> string \<Rightarrow> date \<Rightarrow> int32 \<Rightarrow> int32 \<Rightarrow> cluster
     \<Rightarrow> (exc + unit) \<times> cluster" where
  "cluster_insert cl st d lo hi c =
     (case refusal cl c of
        Some e \<Rightarrow> (Inl e, c)
      | None \<Rightarrow>
          (Inr (),
           c\<lparr>observations := AList.update (st, d) (StationRecord lo hi) (observations c)\<rparr>))"

text \<open>
  Modelled from the spec: the aggregate query answers with one row, whose column is null
  over no value.
\<close>

definition cluster_select_max ::
  "consistency_level option \<Rightarrow> string \<Rightarrow> cluster \<Rightarrow> (exc + max_row list) \<times> cluster" where
  "cluster_select_max cl st c =
     (case refusal cl c of
        Some e \<Rightarrow> (Inl e, c)
      | None \<Rightarrow> (Inr [MaxRow (max_tmax (partition_rows st c))], c))"

text \<open>
  Modelled from the spec: the lookup by key. The static name comes with every row of the
  partition, and alone when the partition has a name and no observation; a station that
  has neither gives no row.
\<close>

definition cluster_select_name ::
  "consistency_level option \<Rightarrow> string \<Rightarrow> cluster \<Rightarrow> (exc + name_row list) \<times> cluster" where
  "cluster_select_name cl st c =
     (case refusal cl c of
        Some e \<Rightarrow> (Inl e, c)
      | None \<Rightarrow>
          (Inr (case partition_rows st c of
                  [] \<Rightarrow> (case map_of (names c) st of None \<Rightarrow> [] | Some n \<Rightarrow> [NameRow (Some n)])
                | r # rs \<Rightarrow> map (\<lambda>x. NameRow (map_of (names c) st)) (r # rs)),
           c))"

text \<open>Modelled from the spec: the engine made of the three executions above.\<close>

definition cassandra :: "cluster engine" where
  "cassandra =
     \<lparr>run_insert = cluster_insert,
      run_select_max = cluster_select_max,
      run_select_name = cluster_select_name\<rparr>"

text \<open>
  An engine without state that gives a fixed outcome to each kind of statement: a store
  that times out, say, or one that returns no row.
\<close>

definition stub ::
  "exc + unit \<Rightarrow> exc + max_row list \<Rightarrow> exc + name_row list \<Rightarrow> unit engine" where
  "stub w m n =
     \<lparr>run_insert = (\<lambda>cl st d lo hi u. (w, u)),
      run_select_max = (\<lambda>cl st u. (m, u)),
      run_select_name = (\<lambda>cl st u. (n, u))\<rparr>"

text \<open>
  The station of the spec's scenario, with its two observations, on a cluster of which
  \<open>n\<close> replicas can be reached; and a station that has a name and no observation.
\<close>

definition madison :: "nat \<Rightarrow> cluster session" where
  "madison n =
     \<lparr>db = \<lparr>alive = n,
            names = [(''USW00014837'', ''MADISON DANE CO RGNL AP'')],
            observations =
              [((''USW00014837'', ''2023-01-01''), StationRecord (- 5) 2),
               ((''USW00014837'', ''2023-01-02''), StationRecord (- 1) 9)]\<rparr>,
      trace = []\<rparr>"

definition silent :: "nat \<Rightarrow> cluster session" where
  "silent n =
     \<lparr>db = \<lparr>alive = n, names = [(''USW00014837'', ''MADISON DANE CO RGNL AP'')],
            observations = []\<rparr>,
      trace = []\<rparr>"

section \<open>Properties\<close>

lemmas service_defs =
  StationMax_def StationName_def RecordTemps_def
  execute_select_max_def execute_select_name_def execute_insert_def
  select_max_strong_def select_max_available_def select_name_def insert_temp_def

lemmas store_defs =
  cassandra_def cluster_insert_def cluster_select_max_def cluster_select_name_def
  refusal_def replication_factor_def partition_rows_def smax_def stub_def madison_def
  silent_def

subsection \<open>The scenarios of the spec on the modelled store\<close>

text \<open>
  Two observations of one station, then a strong read: the larger \<open>tmax\<close>, no flag. A
  station that was never inserted has no name. A station whose largest \<open>tmax\<close> is \<open>-1\<close>
  gets that value with an empty \<open>error\<close>: there the number alone does not tell a
  result from the sentinel, the \<open>error\<close> text does.
\<close>

lemma scenario_two_inserts:
  "fst (StationMax cassandra (StationMaxRequest ''USW00014837'')
     (snd (RecordTemps cassandra (RecordTempsRequest ''USW00014837'' ''2023-01-02'' (- 1) 9)
        (snd (RecordTemps cassandra (RecordTempsRequest ''USW00014837'' ''2023-01-01'' (- 5) 2)
           (silent 3)))))) =
   StationMaxReply 9 ''''"
  by (simp add: service_defs store_defs)

lemma scenario_unknown_station:
  "fst (StationName cassandra (StationNameRequest ''USC00470000'') (silent 3)) =
     Inr (StationNameReply '''' ''Station not found'')"
  by (simp add: service_defs store_defs)

lemma scenario_negative_max:
  "fst (StationMax cassandra (StationMaxRequest ''S'')
     \<lparr>db = \<lparr>alive = 3, names = [],
            observations = [((''S'', ''2023-01-01''), StationRecord (- 9) (- 1)),
                            ((''S'', ''2023-01-02''), StationRecord (- 9) (- 7))]\<rparr>,
      trace = []\<rparr>) = StationMaxReply (- 1) ''''"
  by (simp add: service_defs store_defs)

subsection \<open>The read path\<close>

text \<open>
  C1. Whatever the engine: when the strong read of \<^verbatim>\<open>StationMax\<close> raises an
  unavailability error (\<^verbatim>\<open>Unavailable\<close> or \<^verbatim>\<open>NoHostAvailable\<close>), then if the weak read
  that follows returns a first row with a non-null aggregate \<open>m\<close>, the reply is
  \<open>tmax = m\<close> with \<open>error = "fallback_to_available"\<close>; and if the weak read raises an
  unavailability error too, the reply is \<open>tmax = -1\<close> with \<open>error = "unavailable"\<close>.
  In both cases exactly the strong and then the weak read were executed.
\<close>

theorem StationMax_fallback_flag:
  assumes "run_select_max eng (Some THREE) st (db s) = (Inl e, d1)" and "is_unavailable e"
  shows "(\<forall>rows d2 m.
            run_select_max eng (Some ONE) st d1 = (Inr rows, d2) \<and>
            one rows = Some (MaxRow (Some m)) \<longrightarrow>
            StationMax eng (StationMaxRequest st) s =
              (StationMaxReply m ''fallback_to_available'',
               \<lparr>db = d2,
                trace = trace s @ [Call select_max_strong [PText st],
                                   Call select_max_available [PText st]]\<rparr>))
       \<and> (\<forall>e2 d2.
            run_select_max eng (Some ONE) st d1 = (Inl e2, d2) \<and> is_unavailable e2 \<longrightarrow>
            StationMax eng (StationMaxRequest st) s =
              (StationMaxReply (- 1) ''unavailable'',
               \<lparr>db = d2,
                trace = trace s @ [Call select_max_strong [PText st],
                                   Call select_max_available [PText st]]\<rparr>))"
  using assms by (simp add: service_defs)

theorem StationMax_fallback_flag_witness:
  "StationMax cassandra (StationMaxRequest ''USW00014837'') (madison 1) =
     (StationMaxReply 9 ''fallback_to_available'',
      \<lparr>db = db (madison 1),
       trace = [Call select_max_strong [PText ''USW00014837''],
                Call select_max_available [PText ''USW00014837'']]\<rparr>)
   \<and> StationMax cassandra (StationMaxRequest ''USW00014837'') (madison 0) =
     (StationMaxReply (- 1) ''unavailable'',
      \<lparr>db = db (madison 0),
       trace = [Call select_max_strong [PText ''USW00014837''],
                Call select_max_available [PText ''USW00014837'']]\<rparr>)"
  using StationMax_fallback_flag
          [of cassandra "''USW00014837''" "madison 1"
              "Unavailable ''Cannot achieve consistency level''" "db (madison 1)"]
        StationMax_fallback_flag
          [of cassandra "''USW00014837''" "madison 0"
              "NoHostAvailable ''Unable to connect to any servers''" "db (madison 0)"]
  by (simp add: store_defs)

lemma max_row_eq: "max_temp row = Some m \<Longrightarrow> row = MaxRow (Some m)"
  by (cases row) simp

text \<open>
  C2. Whatever the engine: when the strong read of \<^verbatim>\<open>StationMax\<close> raises an exception
  that is not an unavailability error, the reply is \<open>tmax = -1\<close> with the exception's
  own text as \<open>error\<close>, and the strong read is the only statement that was executed: no
  weak read follows.
\<close>

theorem StationMax_other_error_verbatim:
  assumes "run_select_max eng (Some THREE) st (db s) = (Inl e, d1)" and "\<not> is_unavailable e"
  shows "StationMax eng (StationMaxRequest st) s =
           (StationMaxReply (- 1) (str e),
            \<lparr>db = d1, trace = trace s @ [Call select_max_strong [PText st]]\<rparr>)"
  using assms by (simp add: service_defs)

theorem StationMax_other_error_verbatim_witness:
  "StationMax (stub (Inr ()) (Inl (OtherException ''Client request timeout'')) (Inr []))
       (StationMaxRequest ''USW00014837'') \<lparr>db = (), trace = []\<rparr> =
     (StationMaxReply (- 1) ''Client request timeout'',
      \<lparr>db = (), trace = [Call select_max_strong [PText ''USW00014837'']]\<rparr>)"
  using StationMax_other_error_verbatim
          [of "stub (Inr ()) (Inl (OtherException ''Client request timeout'')) (Inr [])"
              "''USW00014837''" "\<lparr>db = (), trace = []\<rparr>"
              "OtherException ''Client request timeout''" "()"]
  by (simp add: stub_def)

text \<open>
  C4. Whatever the engine: when the strong read of \<^verbatim>\<open>StationMax\<close> returns no row, or a
  first row whose aggregate is null, the reply is \<open>tmax = -1\<close> with
  \<open>error = "No data found"\<close>, and the strong read is the only statement that was executed.
  That reply differs from every reply of a clean or a degraded success and from the
  reply for an unavailable store.
\<close>

theorem StationMax_no_data:
  assumes "run_select_max eng (Some THREE) st (db s) = (Inr rows, d1)"
    and "one rows = None \<or> one rows = Some (MaxRow None)"
  shows "StationMax eng (StationMaxRequest st) s =
           (StationMaxReply (- 1) ''No data found'',
            \<lparr>db = d1, trace = trace s @ [Call select_max_strong [PText st]]\<rparr>)
         \<and> (\<forall>m. StationMaxReply (- 1) ''No data found'' \<noteq> StationMaxReply m '''')
         \<and> (\<forall>m. StationMaxReply (- 1) ''No data found'' \<noteq> StationMaxReply m ''fallback_to_available'')
         \<and> StationMaxReply (- 1) ''No data found'' \<noteq> StationMaxReply (- 1) ''unavailable''"
  using assms by (auto simp add: service_defs)

theorem StationMax_no_data_witness:
  "StationMax cassandra (StationMaxRequest ''USW00014837'') (silent 3) =
     (StationMaxReply (- 1) ''No data found'',
      \<lparr>db = db (silent 3), trace = [Call select_max_strong [PText ''USW00014837'']]\<rparr>)
   \<and> StationMax (stub (Inr ()) (Inr []) (Inr [])) (StationMaxRequest ''USW00014837'')
         \<lparr>db = (), trace = []\<rparr> =
     (StationMaxReply (- 1) ''No data found'',
      \<lparr>db = (), trace = [Call select_max_strong [PText ''USW00014837'']]\<rparr>)"
  using StationMax_no_data
          [of cassandra "''USW00014837''" "silent 3" "[MaxRow None]" "db (silent 3)"]
        StationMax_no_data
          [of "stub (Inr ()) (Inr []) (Inr [])" "''USW00014837''" "\<lparr>db = (), trace = []\<rparr>"
              "[]" "()"]
  by (simp add: store_defs)

text \<open>
  C9. Whatever the engine: when the strong read raises an unavailability error and the
  weak read returns no row, or a first row whose aggregate is null, the reply is
  \<open>tmax = -1\<close> with \<open>error = "No data found"\<close>, the reply of an empty strong read,
  without the degraded indicator.
\<close>

theorem StationMax_fallback_no_data:
  assumes "run_select_max eng (Some THREE) st (db s) = (Inl e, d1)" and "is_unavailable e"
    and "run_select_max eng (Some ONE) st d1 = (Inr rows, d2)"
    and "one rows = None \<or> one rows = Some (MaxRow None)"
  shows "StationMax eng (StationMaxRequest st) s =
           (StationMaxReply (- 1) ''No data found'',
            \<lparr>db = d2,
             trace = trace s @ [Call select_max_strong [PText st],
                                Call select_max_available [PText st]]\<rparr>)"
  using assms by (auto simp add: service_defs)

theorem StationMax_fallback_no_data_witness:
  "StationMax cassandra (StationMaxRequest ''USW00014837'') (silent 2) =
     (StationMaxReply (- 1) ''No data found'',
      \<lparr>db = db (silent 2),
       trace = [Call select_max_strong [PText ''USW00014837''],
                Call select_max_available [PText ''USW00014837'']]\<rparr>)"
  using StationMax_fallback_no_data
          [of cassandra "''USW00014837''" "silent 2"
              "Unavailable ''Cannot achieve consistency level''" "db (silent 2)"
              "[MaxRow None]" "db (silent 2)"]
  by (simp add: store_defs)

text \<open>
  C10. Whatever the engine: a reply of \<^verbatim>\<open>StationMax\<close> whose \<open>tmax\<close> is not the sentinel
  \<open>-1\<close> comes from a strong read that returned this aggregate, with an empty \<open>error\<close>,
  or from a weak read, after an unavailable strong one, that returned this aggregate,
  with \<open>error = "fallback_to_available"\<close>. Every other outcome therefore carries
  \<open>tmax = -1\<close>.
\<close>

theorem StationMax_value_only_on_success:
  assumes "StationMaxReply.tmax (fst (StationMax eng (StationMaxRequest st) s)) \<noteq> - 1"
  shows "(\<exists>rows d1.
            run_select_max eng (Some THREE) st (db s) = (Inr rows, d1) \<and>
            one rows =
              Some (MaxRow (Some (StationMaxReply.tmax (fst (StationMax eng (StationMaxRequest st) s))))) \<and>
            StationMaxReply.error (fst (StationMax eng (StationMaxRequest st) s)) = '''')
       \<or> (\<exists>e d1 rows d2.
            run_select_max eng (Some THREE) st (db s) = (Inl e, d1) \<and> is_unavailable e \<and>
            run_select_max eng (Some ONE) st d1 = (Inr rows, d2) \<and>
            one rows =
              Some (MaxRow (Some (StationMaxReply.tmax (fst (StationMax eng (StationMaxRequest st) s))))) \<and>
            StationMaxReply.error (fst (StationMax eng (StationMaxRequest st) s)) =
              ''fallback_to_available'')"
  using assms
  by (auto simp add: service_defs max_row_eq split: prod.splits sum.splits option.splits if_splits)

theorem StationMax_value_only_on_success_witness:
  "StationMaxReply.tmax (fst (StationMax cassandra (StationMaxRequest ''USW00014837'') (madison 3))) = 9
   \<and> StationMaxReply.error (fst (StationMax cassandra (StationMaxRequest ''USW00014837'') (madison 3))) = ''''
   \<and> StationMaxReply.tmax (fst (StationMax cassandra (StationMaxRequest ''USW00014837'') (madison 2))) = 9
   \<and> StationMaxReply.error (fst (StationMax cassandra (StationMaxRequest ''USW00014837'') (madison 2))) =
         ''fallback_to_available''"
proof -
  let ?strong = "fst (StationMax cassandra (StationMaxRequest ''USW00014837'') (madison 3))"
  let ?weak = "fst (StationMax cassandra (StationMaxRequest ''USW00014837'') (madison 2))"
  have a: "StationMaxReply.tmax ?strong = 9" and b: "StationMaxReply.tmax ?weak = 9"
    by (simp_all add: service_defs store_defs)
  have na: "StationMaxReply.tmax ?strong \<noteq> - 1" and nb: "StationMaxReply.tmax ?weak \<noteq> - 1"
    by (simp_all add: a b)
  have sa: "run_select_max cassandra (Some THREE) ''USW00014837'' (db (madison 3)) =
              (Inr [MaxRow (Some 9)], db (madison 3))"
    and sb: "run_select_max cassandra (Some THREE) ''USW00014837'' (db (madison 2)) =
              (Inl (Unavailable ''Cannot achieve consistency level''), db (madison 2))"
    by (simp_all add: store_defs)
  from StationMax_value_only_on_success [OF na] sa
  have ea: "StationMaxReply.error ?strong = ''''" by auto
  from StationMax_value_only_on_success [OF nb] sb
  have eb: "StationMaxReply.error ?weak = ''fallback_to_available''" by auto
  from a b ea eb show ?thesis by simp
qed

subsection \<open>The write path\<close>

text \<open>
  C5. Whatever the engine: when the insert of \<^verbatim>\<open>RecordTemps\<close> succeeds the reply's
  \<open>error\<close> is empty; when it raises an unavailability error the \<open>error\<close> is
  \<open>"unavailable"\<close>; when it raises any other exception the \<open>error\<close> is that exception's
  own text.
\<close>

theorem RecordTemps_error_string:
  "(\<forall>u. fst (run_insert eng (Some ONE) st d lo hi (db s)) = Inr u \<longrightarrow>
        fst (RecordTemps eng (RecordTempsRequest st d lo hi) s) = RecordTempsReply '''')
   \<and> (\<forall>e. fst (run_insert eng (Some ONE) st d lo hi (db s)) = Inl e \<and> is_unavailable e \<longrightarrow>
        fst (RecordTemps eng (RecordTempsRequest st d lo hi) s) = RecordTempsReply ''unavailable'')
   \<and> (\<forall>e. fst (run_insert eng (Some ONE) st d lo hi (db s)) = Inl e \<and> \<not> is_unavailable e \<longrightarrow>
        fst (RecordTemps eng (RecordTempsRequest st d lo hi) s) = RecordTempsReply (str e))"
  by (auto simp add: service_defs split: prod.splits sum.splits)

theorem RecordTemps_error_string_witness:
  "fst (RecordTemps cassandra (RecordTempsRequest ''USW00014837'' ''2023-01-03'' (- 2) 4) (madison 1)) =
     RecordTempsReply ''''
   \<and> fst (RecordTemps cassandra (RecordTempsRequest ''USW00014837'' ''2023-01-03'' (- 2) 4) (madison 0)) =
     RecordTempsReply ''unavailable''
   \<and> fst (RecordTemps (stub (Inl (OtherException ''Client request timeout'')) (Inr []) (Inr []))
            (RecordTempsRequest ''USW00014837'' ''2023-01-03'' (- 2) 4) \<lparr>db = (), trace = []\<rparr>) =
     RecordTempsReply ''Client request timeout''"
  using RecordTemps_error_string
          [of cassandra "''USW00014837''" "''2023-01-03''" "- 2" 4 "madison 1"]
        RecordTemps_error_string
          [of cassandra "''USW00014837''" "''2023-01-03''" "- 2" 4 "madison 0"]
        RecordTemps_error_string
          [of "stub (Inl (OtherException ''Client request timeout'')) (Inr []) (Inr [])"
              "''USW00014837''" "''2023-01-03''" "- 2" 4 "\<lparr>db = (), trace = []\<rparr>"]
  by (simp add: store_defs)

text \<open>
  C6. Whatever the engine, \<^verbatim>\<open>RecordTemps\<close> executes exactly one statement, the insert
  bound to the request's station, date, \<open>tmin\<close> and \<open>tmax\<close>, with no read before it;
  the engine's state afterwards is the one that this single insert leaves. The insert
  carries the level ONE, which waits for one replica, and no level waits for fewer. On
  the modelled store, with a replica reachable, the insert is accepted whether or not the
  station has a name row, and sets the record of the row keyed by station and date.
\<close>

theorem RecordTemps_single_write:
  "snd (RecordTemps eng (RecordTempsRequest st d lo hi) s) =
     \<lparr>db = snd (run_insert eng (Some ONE) st d lo hi (db s)),
      trace = trace s @ [Call insert_temp [PText st, PText d, PInt lo, PInt hi]]\<rparr>
   \<and> consistency_level insert_temp = Some ONE
   \<and> block_for ONE replication_factor = 1
   \<and> (\<forall>l. block_for ONE replication_factor \<le> block_for l replication_factor)
   \<and> (0 < alive c \<longrightarrow>
        run_insert cassandra (Some ONE) st d lo hi c =
          (Inr (), c\<lparr>observations := AList.update (st, d) (StationRecord lo hi) (observations c)\<rparr>))"
proof -
  have "\<forall>l. 1 \<le> block_for l replication_factor"
  proof
    fix l show "1 \<le> block_for l replication_factor"
      by (cases l) (simp_all add: replication_factor_def)
  qed
  then show ?thesis
    by (auto simp add: service_defs cassandra_def cluster_insert_def refusal_def split: prod.splits sum.splits)
qed

theorem RecordTemps_single_write_witness:
  "run_insert cassandra (Some ONE) ''USC00470000'' ''2023-01-03'' (- 2) 4 (db (madison 1)) =
     (Inr (),
      \<lparr>alive = 1, names = [(''USW00014837'', ''MADISON DANE CO RGNL AP'')],
       observations =
         [((''USW00014837'', ''2023-01-01''), StationRecord (- 5) 2),
          ((''USW00014837'', ''2023-01-02''), StationRecord (- 1) 9),
          ((''USC00470000'', ''2023-01-03''), StationRecord (- 2) 4)]\<rparr>)"
  using RecordTemps_single_write
          [of cassandra "''USC00470000''" "''2023-01-03''" "- 2" 4 "madison 1" "db (madison 1)"]
  by (simp add: madison_def)

lemma RecordTemps_db:
  "db (snd (RecordTemps cassandra (RecordTempsRequest st d lo hi) s)) =
     (if alive (db s) = 0 then db s
      else (db s)\<lparr>observations := AList.update (st, d) (StationRecord lo hi) (observations (db s))\<rparr>)"
  by (simp add: service_defs cassandra_def cluster_insert_def refusal_def replication_factor_def)

lemma StationMax_reads_db:
  "db s = db s' \<Longrightarrow> fst (StationMax eng q s) = fst (StationMax eng q s')"
  by (simp add: service_defs split: prod.splits sum.splits option.splits)

lemma update_one_row:
  "distinct (map fst al) \<Longrightarrow> length (filter (\<lambda>x. fst x = k) (AList.update k v al)) = 1"
proof (induction al)
  case Nil
  then show ?case by simp
next
  case (Cons a al)
  obtain k' v' where a: "a = (k', v')" by (cases a)
  show ?case
  proof (cases "k' = k")
    case True
    with Cons.prems a have "k \<notin> fst ` set al" by simp
    then have "filter (\<lambda>x. fst x = k) al = []"
      by (auto simp add: filter_empty_conv)
    with True a show ?thesis by simp
  next
    case False
    with Cons a show ?thesis by simp
  qed
qed

text \<open>
  C8, on the modelled store. Performing the same \<^verbatim>\<open>RecordTemps\<close> write twice leaves the
  store as performing it once does, and a later \<^verbatim>\<open>StationMax\<close> gives the same reply after
  either. A second write to the same station and date leaves the store as if only the
  second had been made: with a replica reachable the key then holds the later record,
  and if the keys of the table were distinct before they still are, with exactly one row
  for that key.
\<close>

theorem RecordTemps_idempotent_overwrite:
  "db (snd (RecordTemps cassandra (RecordTempsRequest st d lo hi)
         (snd (RecordTemps cassandra (RecordTempsRequest st d lo hi) s)))) =
     db (snd (RecordTemps cassandra (RecordTempsRequest st d lo hi) s))
   \<and> fst (StationMax cassandra q
         (snd (RecordTemps cassandra (RecordTempsRequest st d lo hi)
            (snd (RecordTemps cassandra (RecordTempsRequest st d lo hi) s))))) =
       fst (StationMax cassandra q (snd (RecordTemps cassandra (RecordTempsRequest st d lo hi) s)))
   \<and> db (snd (RecordTemps cassandra (RecordTempsRequest st d lo' hi')
         (snd (RecordTemps cassandra (RecordTempsRequest st d lo hi) s)))) =
       db (snd (RecordTemps cassandra (RecordTempsRequest st d lo' hi') s))
   \<and> (0 < alive (db s) \<longrightarrow>
        map_of (observations (db (snd (RecordTemps cassandra (RecordTempsRequest st d lo' hi')
           (snd (RecordTemps cassandra (RecordTempsRequest st d lo hi) s)))))) (st, d) =
          Some (StationRecord lo' hi'))
   \<and> (0 < alive (db s) \<and> distinct (map fst (observations (db s))) \<longrightarrow>
        distinct (map fst (observations (db (snd (RecordTemps cassandra
           (RecordTempsRequest st d lo' hi')
           (snd (RecordTemps cassandra (RecordTempsRequest st d lo hi) s))))))) \<and>
        length (filter (\<lambda>x. fst x = (st, d))
          (observations (db (snd (RecordTemps cassandra (RecordTempsRequest st d lo' hi')
             (snd (RecordTemps cassandra (RecordTempsRequest st d lo hi) s))))))) = 1)"
proof -
  let ?once = "snd (RecordTemps cassandra (RecordTempsRequest st d lo hi) s)"
  let ?twice = "snd (RecordTemps cassandra (RecordTempsRequest st d lo hi) ?once)"
  let ?later = "snd (RecordTemps cassandra (RecordTempsRequest st d lo' hi') ?once)"
  have same: "db ?twice = db ?once"
    by (simp add: RecordTemps_db)
  have reads: "fst (StationMax cassandra q ?twice) = fst (StationMax cassandra q ?once)"
    by (rule StationMax_reads_db [OF same])
  have over: "db ?later = db (snd (RecordTemps cassandra (RecordTempsRequest st d lo' hi') s))"
    by (simp add: RecordTemps_db)
  have latest: "0 < alive (db s) \<longrightarrow>
      map_of (observations (db ?later)) (st, d) = Some (StationRecord lo' hi')"
    by (simp add: RecordTemps_db update_conv')
  have single: "0 < alive (db s) \<and> distinct (map fst (observations (db s))) \<longrightarrow>
      distinct (map fst (observations (db ?later))) \<and>
      length (filter (\<lambda>x. fst x = (st, d)) (observations (db ?later))) = 1"
    by (simp add: RecordTemps_db distinct_update update_one_row)
  from same reads over latest single show ?thesis by blast
qed

theorem RecordTemps_idempotent_overwrite_witness:
  "observations (db (snd (RecordTemps cassandra
      (RecordTempsRequest ''USW00014837'' ''2023-01-02'' (- 3) 11)
      (snd (RecordTemps cassandra
         (RecordTempsRequest ''USW00014837'' ''2023-01-02'' (- 4) 7) (madison 1)))))) =
     [((''USW00014837'', ''2023-01-01''), StationRecord (- 5) 2),
      ((''USW00014837'', ''2023-01-02''), StationRecord (- 3) 11)]
   \<and> length (filter (\<lambda>x. fst x = (''USW00014837'', ''2023-01-02''))
       (observations (db (snd (RecordTemps cassandra
          (RecordTempsRequest ''USW00014837'' ''2023-01-02'' (- 3) 11)
          (snd (RecordTemps cassandra
             (RecordTempsRequest ''USW00014837'' ''2023-01-02'' (- 4) 7) (madison 1)))))))) = 1"
proof -
  have pre: "0 < alive (db (madison 1)) \<and> distinct (map fst (observations (db (madison 1))))"
    by (simp add: madison_def)
  have direct: "observations (db (snd (RecordTemps cassandra
      (RecordTempsRequest ''USW00014837'' ''2023-01-02'' (- 3) 11) (madison 1)))) =
     [((''USW00014837'', ''2023-01-01''), StationRecord (- 5) 2),
      ((''USW00014837'', ''2023-01-02''), StationRecord (- 3) 11)]"
    by (simp add: service_defs store_defs)
  from RecordTemps_idempotent_overwrite
         [of "''USW00014837''" "''2023-01-02''" "- 4" 7 "madison 1"
             "StationMaxRequest ''USW00014837''" "- 3" 11]
       pre direct
  show ?thesis by simp
qed

subsection \<open>The name lookup\<close>

text \<open>
  C7. Whatever the engine, when the lookup of \<^verbatim>\<open>StationName\<close> returns rows: if there is a
  first row, the reply carries the name column of that row (the station's static name;
  a null column reads as the empty string) with an empty \<open>error\<close>; if there is no row,
  the reply carries an empty name with the non-empty \<open>error\<close> \<open>"Station not found"\<close>. In
  both cases the lookup is the only statement that was executed.
\<close>

theorem StationName_found_or_not:
  assumes "run_select_name eng None st (db s) = (Inr rows, d1)"
  shows "(\<forall>row. one rows = Some row \<longrightarrow>
            StationName eng (StationNameRequest st) s =
              (Inr (StationNameReply (proto_string (name_row.name row)) ''''),
               \<lparr>db = d1, trace = trace s @ [Call select_name [PText st]]\<rparr>))
       \<and> (one rows = None \<longrightarrow>
            StationName eng (StationNameRequest st) s =
              (Inr (StationNameReply '''' ''Station not found''),
               \<lparr>db = d1, trace = trace s @ [Call select_name [PText st]]\<rparr>))
       \<and> ''Station not found'' \<noteq> ''''"
  using assms by (simp add: service_defs)

theorem StationName_found_or_not_witness:
  "StationName cassandra (StationNameRequest ''USW00014837'') (madison 1) =
     (Inr (StationNameReply ''MADISON DANE CO RGNL AP'' ''''),
      \<lparr>db = db (madison 1), trace = [Call select_name [PText ''USW00014837'']]\<rparr>)
   \<and> StationName cassandra (StationNameRequest ''USC00470000'') (madison 1) =
     (Inr (StationNameReply '''' ''Station not found''),
      \<lparr>db = db (madison 1), trace = [Call select_name [PText ''USC00470000'']]\<rparr>)"
  using StationName_found_or_not
          [of cassandra "''USW00014837''" "madison 1"
              "[NameRow (Some ''MADISON DANE CO RGNL AP''), NameRow (Some ''MADISON DANE CO RGNL AP'')]"
              "db (madison 1)"]
        StationName_found_or_not
          [of cassandra "''USC00470000''" "madison 1" "[]" "db (madison 1)"]
  by (simp add: store_defs)

subsection \<open>The level of the strong read\<close>

text \<open>
  C3, as stated, fails. The strong statement carries the level THREE, which waits for
  three replicas, while a majority of the replication factor 3 is two. On the modelled
  store with two of the three replicas reachable, a majority, the first read of
  \<^verbatim>\<open>StationMax\<close> is refused as unavailable and the reply comes from the fallback.
\<close>

theorem strong_read_needs_more_than_majority:
  "block_for (level_of (consistency_level select_max_strong)) replication_factor \<noteq>
     replication_factor div 2 + 1
   \<and> replication_factor div 2 + 1 \<le> alive (db (madison 2))
   \<and> fst (execute_select_max cassandra select_max_strong ''USW00014837'' (madison 2)) =
       Inl (Unavailable ''Cannot achieve consistency level'')
   \<and> fst (StationMax cassandra (StationMaxRequest ''USW00014837'') (madison 2)) =
       StationMaxReply 9 ''fallback_to_available''"
  by (simp add: service_defs store_defs)

text \<open>
  C3, amended. Whatever the engine, the first statement that \<^verbatim>\<open>StationMax\<close> executes is
  the maximum-\<open>tmax\<close> aggregate query bound to the requested station, at the level THREE;
  at the keyspace's replication factor 3 that level waits for all three replicas.
\<close>

theorem StationMax_first_read_all_replicas:
  "(\<exists>rest. trace (snd (StationMax eng (StationMaxRequest st) s)) =
             trace s @ Call select_max_strong [PText st] # rest)
   \<and> query_string select_max_strong =
       ''SELECT MAX(record.tmax) as max_temp FROM weather.stations WHERE id = ?''
   \<and> consistency_level select_max_strong = Some THREE
   \<and> replication_factor = 3
   \<and> block_for THREE replication_factor = replication_factor"
  by (auto simp add: service_defs replication_factor_def
           split: prod.splits sum.splits option.splits)

end
